theory Spec2Isabelle
  imports Main "HOL-Library.Sublist" "HOL-Library.AList" "HOL-Library.Char_ord"
    "HOL-Library.List_Lexorder"
begin

section \<open>State models (states.py)\<close>

text \<open>
  The pydantic models of \<^verbatim>\<open>states.py\<close> as records. Python's \<^verbatim>\<open>int\<close> is \<open>int\<close>,
  \<^verbatim>\<open>str\<close> is \<open>string\<close> (ASCII text), \<^verbatim>\<open>Optional[T]\<close> is \<open>T option\<close>. Field names are
  the source's; where two models share a field name the later one carries a prefix.
\<close>

datatype AgentPhase =
  INITIALIZING | PLANNING | ARCHITECTING | CODING | REVIEWING | FIXING | TESTING
  | FINALIZING | COMPLETE | FAILED

datatype ReviewSeverity = CRITICAL | HIGH | MEDIUM | LOW | PASS

record File =
  path :: string
  purpose :: string
  file_dependencies :: "string list"

record Plan =
  name :: string
  plan_description :: string
  techstack :: string
  features :: "string list"
  files :: "File list"
  architecture_notes :: string

record ImplementationTask =
  filepath :: string
  task_description :: string
  dependencies :: "string list"
  expected_exports :: "string list"
  priority :: int

record TaskPlan =
  plan :: "Plan option"
  implementation_steps :: "ImplementationTask list"
  total_estimated_tokens :: int

record CoderState =
  task_plan :: TaskPlan
  current_step_idx :: int
  completed_files :: "string list"
  failed_files :: "string list"
  current_file_content :: "string option"

record CodeIssue =
  line_number :: "int option"
  issue_type :: string
  description :: string
  suggestion :: string
  severity :: ReviewSeverity

record CodeReview =
  review_filepath :: string
  issues :: "CodeIssue list"
  passed :: bool
  overall_quality :: int
  summary :: string

record ReviewState =
  reviews :: "CodeReview list"
  iteration :: int
  max_iterations :: int
  all_passed :: bool

text \<open>
  A pydantic constructor call: an argument that the caller leaves out is \<open>None\<close> here and
  takes the default of its \<^verbatim>\<open>Field(default=...)\<close>.
\<close>

definition ReviewState_init ::
  "CodeReview list option \<Rightarrow> int option \<Rightarrow> int option \<Rightarrow> bool option \<Rightarrow> ReviewState" where
  "ReviewState_init reviews_arg iteration_arg max_iterations_arg all_passed_arg =
     \<lparr> reviews = (case reviews_arg of None \<Rightarrow> [] | Some v \<Rightarrow> v),
       iteration = (case iteration_arg of None \<Rightarrow> 0 | Some v \<Rightarrow> v),
       max_iterations = (case max_iterations_arg of None \<Rightarrow> 3 | Some v \<Rightarrow> v),
       all_passed = (case all_passed_arg of None \<Rightarrow> False | Some v \<Rightarrow> v) \<rparr>"

definition CoderState_init ::
  "TaskPlan \<Rightarrow> int option \<Rightarrow> string list option \<Rightarrow> string list option \<Rightarrow> CoderState" where
  "CoderState_init task_plan_arg idx_arg completed_arg failed_arg =
     \<lparr> task_plan = task_plan_arg,
       current_step_idx = (case idx_arg of None \<Rightarrow> 0 | Some v \<Rightarrow> v),
       completed_files = (case completed_arg of None \<Rightarrow> [] | Some v \<Rightarrow> v),
       failed_files = (case failed_arg of None \<Rightarrow> [] | Some v \<Rightarrow> v),
       current_file_content = None \<rparr>"

text \<open>
  The dictionary that the graph threads through the stages. A key that is absent reads as
  \<open>None\<close> through \<^verbatim>\<open>state.get\<close>. Each stage returns a fresh dictionary, which replaces
  the previous one.
\<close>

record pstate =
  s_user_prompt :: "string option"
  s_plan :: "Plan option"
  s_task_plan :: "TaskPlan option"
  s_coder_state :: "CoderState option"
  s_review_state :: "ReviewState option"
  s_current_phase :: "AgentPhase option"
  s_status :: "string option"
  s_errors :: "string list option"

definition empty_state :: pstate where
  "empty_state =
     \<lparr> s_user_prompt = None, s_plan = None, s_task_plan = None, s_coder_state = None,
       s_review_state = None, s_current_phase = None, s_status = None, s_errors = None \<rparr>"

section \<open>Routing (graph.py)\<close>

definition route_after_coder :: "pstate \<Rightarrow> string" where
  "route_after_coder state =
     (case s_coder_state state of
        None \<Rightarrow> ''reviewer''
      | Some coder_state \<Rightarrow>
          (let total_steps = int (length (implementation_steps (task_plan coder_state)));
               current_idx = current_step_idx coder_state
           in if current_idx \<ge> total_steps then ''reviewer'' else ''coder''))"

definition route_after_review :: "pstate \<Rightarrow> string" where
  "route_after_review state =
     (case s_review_state state of
        None \<Rightarrow> ''test_generator''
      | Some review_state \<Rightarrow>
          (if all_passed review_state then ''test_generator''
           else if iteration review_state \<ge> max_iterations review_state then ''test_generator''
           else ''fixer''))"

definition route_after_tests :: "pstate \<Rightarrow> string" where
  "route_after_tests state = ''finalizer''"

datatype node =
  planner | architect | coder | reviewer | fixer | test_generator | test_runner
  | finalizer | END

text \<open>
  \<^verbatim>\<open>create_graph\<close>: the node that follows \<open>n\<close> in state \<open>state\<close>. A conditional edge looks
  the router's answer up in the mapping given to \<^verbatim>\<open>add_conditional_edges\<close>; an answer
  that is not a key of the mapping has no successor.
\<close>

fun next_node :: "node \<Rightarrow> pstate \<Rightarrow> node option" where
  "next_node planner state = Some architect"
| "next_node architect state = Some coder"
| "next_node coder state =
     map_of [(''coder'', coder), (''reviewer'', reviewer)] (route_after_coder state)"
| "next_node reviewer state =
     map_of [(''fixer'', fixer), (''test_generator'', test_generator)] (route_after_review state)"
| "next_node fixer state = Some reviewer"
| "next_node test_generator state = Some test_runner"
| "next_node test_runner state = map_of [(''finalizer'', finalizer)] (route_after_tests state)"
| "next_node finalizer state = Some END"
| "next_node END state = None"

section \<open>Python string operations\<close>

text \<open>
  The methods of \<^verbatim>\<open>str\<close> that the stages use, on ASCII text. \<^verbatim>\<open>s.startswith(p)\<close> is
  \<open>prefix p s\<close>.
\<close>

definition is_space :: "char \<Rightarrow> bool" where
  "is_space c = (of_char c \<in> {9, 10, 11, 12, 13, 28, 29, 30, 31, 32 :: nat})"

definition strip :: "string \<Rightarrow> string" where
  "strip s = rev (dropWhile is_space (rev (dropWhile is_space s)))"

definition upper_char :: "char \<Rightarrow> char" where
  "upper_char c =
     (case map_of (zip ''abcdefghijklmnopqrstuvwxyz'' ''ABCDEFGHIJKLMNOPQRSTUVWXYZ'') c of
        None \<Rightarrow> c | Some u \<Rightarrow> u)"

definition lower_char :: "char \<Rightarrow> char" where
  "lower_char c =
     (case map_of (zip ''ABCDEFGHIJKLMNOPQRSTUVWXYZ'' ''abcdefghijklmnopqrstuvwxyz'') c of
        None \<Rightarrow> c | Some l \<Rightarrow> l)"

definition upper :: "string \<Rightarrow> string" where
  "upper s = map upper_char s"

definition lower :: "string \<Rightarrow> string" where
  "lower s = map lower_char s"

text \<open>\<^verbatim>\<open>sub in s\<close> for strings.\<close>

fun py_in :: "string \<Rightarrow> string \<Rightarrow> bool" where
  "py_in sub [] = (sub = [])"
| "py_in sub (c # cs) = (prefix sub (c # cs) \<or> py_in sub cs)"

text \<open>\<^verbatim>\<open>s.split(sep)\<close> for a separator of one character: never an empty list.\<close>

fun split_char :: "char \<Rightarrow> string \<Rightarrow> string list" where
  "split_char sep [] = [[]]"
| "split_char sep (c # cs) =
     (if c = sep then [] # split_char sep cs
      else (case split_char sep cs of [] \<Rightarrow> [[c]] | w # ws \<Rightarrow> (c # w) # ws))"

fun join :: "string \<Rightarrow> string list \<Rightarrow> string" where
  "join sep [] = []"
| "join sep [x] = x"
| "join sep (x # y # ys) = x @ sep @ join sep (y # ys)"

text \<open>\<^verbatim>\<open>str(n)\<close> for a length.\<close>

definition digit_char :: "nat \<Rightarrow> char" where
  "digit_char d = ''0123456789'' ! d"

function str_nat :: "nat \<Rightarrow> string" where
  "str_nat n = (if n < 10 then [digit_char n] else str_nat (n div 10) @ [digit_char (n mod 10)])"
  by pat_completeness auto
termination
  by (relation "measure (\<lambda>n. n)") auto

declare str_nat.simps [simp del]

section \<open>Sandboxed file tools (tools.py)\<close>

text \<open>
  A path of the file system is the list of its components below \<^verbatim>\<open>/\<close>. The project tree
  is an association list from resolved paths to file contents; the tree has no symbolic
  links, so \<^verbatim>\<open>Path.resolve\<close> only removes the \<^verbatim>\<open>..\<close> components. \<open>io_fault\<close> gives the
  paths that the operating system refuses to open (a directory, a permission) with the
  text of the exception; \<open>llm_calls\<close> counts the requests made to the language model.
\<close>

type_synonym fpath = "string list"

record world =
  disk :: "(fpath \<times> string) list"
  io_fault :: "fpath \<Rightarrow> string option"
  llm_calls :: nat

text \<open>\<^verbatim>\<open>pathlib.PurePosixPath(p).parts\<close> without the root: empty and \<^verbatim>\<open>.\<close> components vanish.\<close>

definition py_parts :: "string \<Rightarrow> string list" where
  "py_parts p = filter (\<lambda>c. c \<noteq> [] \<and> c \<noteq> ''.'') (split_char CHR ''/'' p)"

definition is_absolute :: "string \<Rightarrow> bool" where
  "is_absolute p = prefix ''/'' p"

definition path_name :: "string \<Rightarrow> string" where
  "path_name p = (case py_parts p of [] \<Rightarrow> [] | c # cs \<Rightarrow> last (c # cs))"

fun resolve_parts :: "fpath \<Rightarrow> string list \<Rightarrow> fpath" where
  "resolve_parts acc [] = acc"
| "resolve_parts acc (c # cs) =
     resolve_parts (if c = ''..'' then butlast acc else acc @ [c]) cs"

definition resolve :: "string list \<Rightarrow> fpath" where
  "resolve ps = resolve_parts [] ps"

text \<open>
  \<^verbatim>\<open>safe_path_for_project\<close>: \<open>Inl\<close> is the \<^verbatim>\<open>ValueError\<close> with its message, \<open>Inr\<close> the resolved
  path. \<open>root\<close> is \<^verbatim>\<open>PROJECT_ROOT\<close>.
\<close>

definition safe_path_for_project :: "fpath \<Rightarrow> string \<Rightarrow> string + fpath" where
  "safe_path_for_project root path_arg =
     (let path1 = (if is_absolute path_arg then path_name path_arg else path_arg);
          p = resolve (root @ py_parts path1)
      in if prefix (resolve root) p then Inr p
         else Inl (''Security Error: Attempt to access path outside project root: '' @ path1))"

definition write_file :: "fpath \<Rightarrow> world \<Rightarrow> string \<Rightarrow> string \<Rightarrow> string \<times> world" where
  "write_file root w path_arg content =
     (case safe_path_for_project root path_arg of
        Inl msg \<Rightarrow> (''ERROR: Failed to write to '' @ path_arg @ '': '' @ msg, w)
      | Inr p \<Rightarrow>
          (case io_fault w p of
             Some msg \<Rightarrow> (''ERROR: Failed to write to '' @ path_arg @ '': '' @ msg, w)
           | None \<Rightarrow>
               (''SUCCESS: Wrote '' @ str_nat (length content) @ '' characters to '' @ path_arg,
                w\<lparr>disk := AList.update p content (disk w)\<rparr>)))"

text \<open>
  Files are opened in text mode. On reading (\<^verbatim>\<open>open(p, "r", encoding="utf-8")\<close>), Python
  turns every \<^verbatim>\<open>\r\n\<close> and every remaining \<^verbatim>\<open>\r\<close> into \<^verbatim>\<open>\n\<close>; on writing, on a POSIX
  system, the text is stored as it is.
\<close>

fun universal_newlines :: "string \<Rightarrow> string" where
  "universal_newlines [] = []"
| "universal_newlines [c] = (if c = CHR 0x0D then [CHR 0x0A] else [c])"
| "universal_newlines (c # d # cs) =
     (if c = CHR 0x0D then
        (if d = CHR 0x0A then CHR 0x0A # universal_newlines cs
         else CHR 0x0A # universal_newlines (d # cs))
      else c # universal_newlines (d # cs))"

definition read_file :: "fpath \<Rightarrow> world \<Rightarrow> string \<Rightarrow> string" where
  "read_file root w path_arg =
     (case safe_path_for_project root path_arg of
        Inl msg \<Rightarrow> ''ERROR: Failed to read '' @ path_arg @ '': '' @ msg
      | Inr p \<Rightarrow>
          (case map_of (disk w) p of
             None \<Rightarrow> (case io_fault w p of
                        None \<Rightarrow> []
                      | Some msg \<Rightarrow> ''ERROR: Failed to read '' @ path_arg @ '': '' @ msg)
           | Some content \<Rightarrow>
               (case io_fault w p of
                  None \<Rightarrow> universal_newlines content
                | Some msg \<Rightarrow> ''ERROR: Failed to read '' @ path_arg @ '': '' @ msg)))"




text \<open>The path that \<^verbatim>\<open>safe_path_for_project\<close> resolves (accepted or not).\<close>

definition target_path :: "fpath \<Rightarrow> string \<Rightarrow> fpath" where
  "target_path root path_arg =
     resolve (root @ py_parts (if is_absolute path_arg then path_name path_arg else path_arg))"

section \<open>Architect: the fallback task plan (architect.py)\<close>

definition newline :: string where
  "newline = [CHR 0x0A]"

definition priority_map :: "(string \<times> int) list" where
  "priority_map =
     [(''.json'', 0), (''.html'', 1), (''.css'', 2), (''.js'', 3), (''.py'', 1), (''.md'', 4)]"

text \<open>\<^verbatim>\<open>'.' + file.path.split('.')[-1] if '.' in file.path else ''\<close>\<close>

definition file_ext_dotted :: "string \<Rightarrow> string" where
  "file_ext_dotted p =
     (if py_in ''.'' p then ''.'' @ last (split_char CHR ''.'' p) else [])"

definition fallback_task_description :: "Plan \<Rightarrow> File \<Rightarrow> string" where
  "fallback_task_description pl file =
     ''Create the file '' @ path file @ '' for the '' @ name pl @ '' project.'' @ newline
     @ newline
     @ ''Purpose: '' @ purpose file @ newline
     @ newline
     @ ''Tech Stack: '' @ techstack pl @ newline
     @ newline
     @ ''Project Features to implement:'' @ newline
     @ join newline (map (\<lambda>f. ''- '' @ f) (features pl)) @ newline
     @ newline
     @ ''Create a complete, working implementation. Include all necessary code.'' @ newline"

definition fallback_step :: "Plan \<Rightarrow> nat \<times> File \<Rightarrow> ImplementationTask" where
  "fallback_step pl e =
     (case e of (i, file) \<Rightarrow>
        (let ext = file_ext_dotted (path file);
             priority_v = (case map_of priority_map ext of None \<Rightarrow> int i | Some v \<Rightarrow> v)
         in \<lparr> filepath = path file,
              task_description = fallback_task_description pl file,
              dependencies = map path (take i (files pl)),
              expected_exports = [],
              priority = priority_v \<rparr>))"

text \<open>
  \<^verbatim>\<open>list.sort(key=...)\<close> is stable, as \<open>sort_key\<close> is. \<^verbatim>\<open>TaskPlan(implementation_steps=...)\<close>
  leaves \<^verbatim>\<open>plan\<close> and \<^verbatim>\<open>total_estimated_tokens\<close> at their defaults.
\<close>

definition create_fallback_task_plan :: "Plan \<Rightarrow> TaskPlan" where
  "create_fallback_task_plan pl =
     (let fallback_steps = map (fallback_step pl) (enumerate 0 (files pl))
      in \<lparr> plan = None,
           implementation_steps = sort_key priority fallback_steps,
           total_estimated_tokens = 0 \<rparr>)"

section \<open>External collaborators\<close>

text \<open>
  A request to the language model is the data that the stage puts into its prompt
  template; the wording of the template is not modelled.
\<close>

datatype prompt =
    CoderTaskPrompt string string string string
  | CoderFallbackPrompt string string
  | ReviewerPrompt string string string
  | SimpleReviewPrompt string string string
  | FixPrompt string string string "CodeIssue list"

text \<open>
  The three shapes of the regular expressions for a fenced code block:
  \<^verbatim>\<open>```LANG\n(.*?)```\<close> for one language, the same with the alternation of the known
  languages (optional), and \<^verbatim>\<open>```\n(.*?)```\<close>.
\<close>

datatype fence_pattern = FenceLang string | FenceKnownLang | FencePlain

text \<open>
  What the stages do not compute themselves is a field of \<open>env\<close>. The requests to the
  language model take the number of the request (\<open>llm_calls\<close> of the world), so that two
  requests with the same prompt may be answered differently; \<open>Inl\<close> is a raised exception
  with its text (\<^verbatim>\<open>str(e)\<close>).
  \<^item> \<open>prepare_error\<close>: an exception raised while the Coder prepares its request (context
    summary, prompt templates, \<^verbatim>\<open>create_react_agent\<close>);
  \<^item> \<open>react_agent_invoke\<close>: the tool-using agent; it returns or raises, and leaves the
    project tree in some new state;
  \<^item> \<open>llm_invoke\<close>: a plain request, answered with the text of the response;
  \<^item> \<open>llm_structured_review\<close>: \<^verbatim>\<open>llm.with_structured_output(CodeReview).invoke\<close>;
  \<^item> \<open>decode_review_payload\<close>: the regular expression, the unescaping, \<^verbatim>\<open>json.loads\<close> and
    the field validation of \<^verbatim>\<open>parse_review_from_error\<close>: the fields of the review, or
    \<open>None\<close> when there is no match or anything raises;
  \<^item> \<open>decode_write_file_call\<close>: the regular expressions, the unescaping and
    \<^verbatim>\<open>json.loads\<close> of \<^verbatim>\<open>extract_and_execute_tool_call\<close>: the path and the content of the
    call, or \<open>None\<close> when there is no match, a field is missing or anything raises;
  \<^item> \<open>re_findall\<close>: \<^verbatim>\<open>re.findall(pattern, text, re.DOTALL)\<close>;
  \<^item> \<open>re_sub_markdown\<close>: the four \<^verbatim>\<open>re.sub\<close> of \<^verbatim>\<open>clean_review_response\<close>.
\<close>

record env =
  PROJECT_ROOT :: fpath
  prepare_error :: "nat \<Rightarrow> string option"
  react_agent_invoke ::
    "nat \<Rightarrow> prompt \<Rightarrow> (fpath \<times> string) list \<Rightarrow> (string + unit) \<times> (fpath \<times> string) list"
  llm_invoke :: "nat \<Rightarrow> prompt \<Rightarrow> string + string"
  llm_structured_review :: "nat \<Rightarrow> prompt \<Rightarrow> string + CodeReview option"
  decode_review_payload :: "string \<Rightarrow> (CodeIssue list \<times> bool \<times> int \<times> string) option"
  decode_write_file_call :: "string \<Rightarrow> (string \<times> string) option"
  re_findall :: "fence_pattern \<Rightarrow> string \<Rightarrow> string list"
  re_sub_markdown :: "string \<Rightarrow> string"

definition tick_llm :: "world \<Rightarrow> world" where
  "tick_llm w = w\<lparr>llm_calls := Suc (llm_calls w)\<rparr>"

text \<open>\<^verbatim>\<open>max(matches, key=len)\<close>: the first of the longest matches.\<close>

definition py_max_len :: "string list \<Rightarrow> string" where
  "py_max_len ms = foldl (\<lambda>b m. if length m > length b then m else b) (hd ms) (tl ms)"

fun first_fenced :: "env \<Rightarrow> fence_pattern list \<Rightarrow> string \<Rightarrow> string option" where
  "first_fenced e [] response_text = None"
| "first_fenced e (pat # pats) response_text =
     (case re_findall e pat response_text of
        [] \<Rightarrow> first_fenced e pats response_text
      | m # ms \<Rightarrow> Some (py_max_len (m # ms)))"

text \<open>\<^verbatim>\<open>filepath.split(".")[-1].lower() if "." in filepath else ""\<close>\<close>

definition file_ext_of :: "string \<Rightarrow> string" where
  "file_ext_of fp = (if py_in ''.'' fp then lower (last (split_char CHR ''.'' fp)) else [])"

section \<open>Reviewer (reviewer.py)\<close>

definition parse_review_from_error :: "env \<Rightarrow> string \<Rightarrow> string \<Rightarrow> CodeReview option" where
  "parse_review_from_error e error_str fp =
     (case decode_review_payload e error_str of
        None \<Rightarrow> None
      | Some (issues_v, passed_v, quality_v, summary_v) \<Rightarrow>
          Some \<lparr> review_filepath = fp, issues = issues_v, passed = passed_v,
                 overall_quality = quality_v, summary = summary_v \<rparr>)"

definition clean_review_response :: "env \<Rightarrow> string \<Rightarrow> string" where
  "clean_review_response e text_v = strip (re_sub_markdown e text_v)"

definition issue_words :: "string list" where
  "issue_words =
     [''issue'', ''error'', ''missing'', ''incorrect'', ''should'', ''need'', ''fix'', ''add'',
      ''remove'', ''change'']"

text \<open>The body of the loop of \<^verbatim>\<open>extract_issues_from_response\<close>: is the line kept?\<close>

definition issue_line :: "string \<Rightarrow> bool" where
  "issue_line line =
     (if line = [] \<or> length line < 10 then False
      else if prefix ''PASS'' (upper line) \<or> prefix ''FAIL'' (upper line) then False
      else if prefix ''Result:'' line \<or> prefix ''Issues'' line then False
      else if list_ex (\<lambda>word. py_in word (lower line)) issue_words
           then length line > 15 \<and> length line < 300
      else False)"

definition extract_issues_from_response :: "env \<Rightarrow> string \<Rightarrow> string list" where
  "extract_issues_from_response e response_text =
     (let cleaned = clean_review_response e response_text;
          lines = split_char CHR 0x0A cleaned
      in take 5 (filter issue_line (map strip lines)))"

definition make_issue :: "string \<Rightarrow> string \<Rightarrow> string \<Rightarrow> ReviewSeverity \<Rightarrow> CodeIssue" where
  "make_issue type_v description_v suggestion_v severity_v =
     \<lparr> line_number = None, issue_type = type_v, description = description_v,
       suggestion = suggestion_v, severity = severity_v \<rparr>"

text \<open>The review of a file that is missing or empty (no request is made).\<close>

definition missing_review :: "string \<Rightarrow> CodeReview" where
  "missing_review fp =
     \<lparr> review_filepath = fp,
       issues = [make_issue ''missing'' ''File does not exist or is empty''
                   ''Ensure the file is created with proper content'' CRITICAL],
       passed = False, overall_quality = 0, summary = ''File missing or empty'' \<rparr>"

text \<open>The review recorded by the handler of the per-file \<^verbatim>\<open>try\<close>.\<close>

definition error_review :: "string \<Rightarrow> string \<Rightarrow> CodeReview" where
  "error_review fp err =
     \<lparr> review_filepath = fp, issues = [], passed = True, overall_quality = 6,
       summary = ''Review error: '' @ take 50 err \<rparr>"

text \<open>
  The PASS/FAIL text protocol: the branch \<^verbatim>\<open>if review is None\<close> after the response of the
  plain request has arrived.
\<close>

definition simple_protocol_review :: "env \<Rightarrow> string \<Rightarrow> string \<Rightarrow> CodeReview" where
  "simple_protocol_review e fp response_content =
     (let response_text = strip response_content;
          lines = split_char CHR 0x0A response_text;
          first_line = (case lines of [] \<Rightarrow> [] | l # ls \<Rightarrow> upper (strip l));
          is_pass = (first_line = ''PASS''
                     \<or> (prefix ''PASS'' first_line \<and> \<not> py_in ''FAIL'' first_line));
          issues_v =
            (if \<not> is_pass then
               (let extracted_issues = extract_issues_from_response e response_text
                in if extracted_issues \<noteq> [] then
                     map (\<lambda>issue_text. make_issue ''quality'' (take 200 issue_text)
                            ''Fix the identified issue'' MEDIUM)
                         (take 2 extracted_issues)
                   else
                     (let second_line0 = (case lines of l0 # l1 # ls \<Rightarrow> strip l1 | _ \<Rightarrow> []);
                          second_line = clean_review_response e second_line0;
                          issue_desc =
                            (if second_line \<noteq> [] \<and> length second_line > 10
                                \<and> length second_line < 200
                             then second_line
                             else ''Code review failed for '' @ fp)
                      in [make_issue ''quality'' issue_desc ''Review and fix the code'' MEDIUM]))
             else [])
      in \<lparr> review_filepath = fp, issues = issues_v, passed = is_pass,
           overall_quality = (if is_pass then 7 else 5),
           summary = (if is_pass then ''PASS'' else ''FAIL'') \<rparr>)"

text \<open>\<^verbatim>\<open>if not review.passed and len(review.issues) == 0: review.issues.append(...)\<close>\<close>

definition add_unspecified_issue :: "string \<Rightarrow> CodeReview \<Rightarrow> CodeReview" where
  "add_unspecified_issue fp review =
     (if \<not> passed review \<and> length (issues review) = 0 then
        review\<lparr>issues := issues review
          @ [make_issue ''unspecified'' (''Review failed for '' @ fp @ '' without specific issues'')
               ''Manual review recommended'' MEDIUM]\<rparr>
      else review)"

text \<open>
  The body of the per-file \<^verbatim>\<open>try\<close> up to the review that is appended: \<open>Inl\<close> is an exception
  that reaches the handler of that \<^verbatim>\<open>try\<close>.
\<close>

definition review_file ::
  "env \<Rightarrow> world \<Rightarrow> ImplementationTask \<Rightarrow> string \<Rightarrow> (string + CodeReview) \<times> world" where
  "review_file e w step content =
     (let fp = filepath step;
          structured = llm_structured_review e (llm_calls w)
                         (ReviewerPrompt fp content (task_description step));
          w1 = tick_llm w;
          review = (case structured of
                      Inr r \<Rightarrow> r
                    | Inl error_str \<Rightarrow>
                        if py_in ''failed_generation'' error_str
                        then parse_review_from_error e error_str fp else None)
      in case review of
           Some r \<Rightarrow> (Inr (add_unspecified_issue fp r), w1)
         | None \<Rightarrow>
             (case llm_invoke e (llm_calls w1)
                     (SimpleReviewPrompt (upper (file_ext_of fp)) fp content) of
                Inl err \<Rightarrow> (Inl err, tick_llm w1)
              | Inr response \<Rightarrow>
                  (Inr (add_unspecified_issue fp (simple_protocol_review e fp response)),
                   tick_llm w1)))"

text \<open>
  One round of \<^verbatim>\<open>for step in steps\<close>. The accumulator is \<^verbatim>\<open>review_state.reviews\<close>, the local
  \<^verbatim>\<open>all_passed\<close> and the world.
\<close>

definition review_step ::
  "env \<Rightarrow> (string \<times> CodeReview) list \<Rightarrow> string list \<Rightarrow> ImplementationTask
   \<Rightarrow> CodeReview list \<times> bool \<times> world \<Rightarrow> CodeReview list \<times> bool \<times> world" where
  "review_step e preserved_reviews files_to_review step acc =
     (case acc of (reviews_v, all_passed_v, w) \<Rightarrow>
        (let fp = filepath step
         in case map_of preserved_reviews fp of
              Some r \<Rightarrow> (reviews_v @ [r], all_passed_v, w)
            | None \<Rightarrow>
                if fp \<notin> set files_to_review then (reviews_v, all_passed_v, w)
                else
                  (let content = read_file (PROJECT_ROOT e) w fp
                   in if content = [] \<or> prefix ''ERROR'' content \<or> length (strip content) < 5
                      then (reviews_v @ [missing_review fp], False, w)
                      else
                        (case review_file e w step content of
                           (Inr review, w') \<Rightarrow>
                             (reviews_v @ [review],
                              (if passed review then all_passed_v else False), w')
                         | (Inl err, w') \<Rightarrow>
                             (reviews_v @ [error_review fp err], all_passed_v, w')))))"

definition reviewer_agent :: "env \<Rightarrow> world \<Rightarrow> pstate \<Rightarrow> pstate \<times> world" where
  "reviewer_agent e w state =
     (let coder_state0 = s_coder_state state;
          task_plan_v = s_task_plan state;
          plan_v = s_plan state;
          user_prompt_v = s_user_prompt state;
          existing_review_state = s_review_state state;
          coder_state1 =
            (case coder_state0 of
               Some cs \<Rightarrow> Some cs
             | None \<Rightarrow>
                 (case task_plan_v of
                    Some tp \<Rightarrow>
                      Some (CoderState_init tp
                              (Some (int (length (implementation_steps tp))))
                              (Some (map filepath (implementation_steps tp)))
                              (Some []))
                  | None \<Rightarrow> None))
      in case coder_state1 of
           None \<Rightarrow>
             (empty_state\<lparr>s_user_prompt := user_prompt_v, s_plan := plan_v,
                s_task_plan := task_plan_v, s_current_phase := Some FAILED,
                s_status := Some ''FAILED'',
                s_errors := Some [''No coder state or task plan available'']\<rparr>, w)
         | Some coder_state_v \<Rightarrow>
             (let steps = implementation_steps (task_plan coder_state_v);
                  review_state0 =
                    (case existing_review_state of
                       None \<Rightarrow> ReviewState_init (Some []) (Some 0) (Some 5) None
                     | Some ex \<Rightarrow>
                         ReviewState_init (Some []) (Some (iteration ex + 1))
                           (Some (max_iterations ex)) None);
                  files_to_review =
                    (case existing_review_state of
                       None \<Rightarrow> map filepath steps
                     | Some ex \<Rightarrow>
                         map review_filepath (filter (\<lambda>r. \<not> passed r) (reviews ex)));
                  preserved_reviews =
                    (case existing_review_state of
                       None \<Rightarrow> []
                     | Some ex \<Rightarrow>
                         fold (\<lambda>r d. if passed r then AList.update (review_filepath r) r d else d)
                           (reviews ex) []);
                  result = empty_state\<lparr>s_user_prompt := user_prompt_v, s_plan := plan_v,
                             s_task_plan := task_plan_v, s_coder_state := Some coder_state_v,
                             s_current_phase := Some REVIEWING\<rparr>
              in if iteration review_state0 \<ge> max_iterations review_state0 then
                   (result\<lparr>s_review_state :=
                        Some (review_state0\<lparr>reviews := map snd preserved_reviews,
                                all_passed := True\<rparr>),
                      s_status := Some ''review_max_iterations''\<rparr>, w)
                 else
                   (case fold (review_step e preserved_reviews files_to_review) steps
                           ([], True, w) of
                      (reviews_v, all_passed_v, w') \<Rightarrow>
                        (result\<lparr>s_review_state :=
                             Some (review_state0\<lparr>reviews := reviews_v,
                                     all_passed := all_passed_v\<rparr>),
                           s_status := Some ''reviewed''\<rparr>, w'))))"

section \<open>Coder (coder.py, with the context summary of tools.py)\<close>

definition fence :: string where
  "fence = ''```''"

text \<open>
  \<^verbatim>\<open>get_all_project_files\<close>: the files below the root that can be opened, with their paths
  relative to the root, in the order of the tree, each read in text mode.
\<close>

definition get_all_project_files :: "fpath \<Rightarrow> world \<Rightarrow> (string \<times> string) list" where
  "get_all_project_files root w =
     map (\<lambda>fc. (join ''/'' (drop (length root) (fst fc)), universal_newlines (snd fc)))
       (filter (\<lambda>fc. strict_prefix root (fst fc) \<and> io_fault w (fst fc) = None) (disk w))"

definition file_summary :: "nat \<Rightarrow> string \<times> string \<Rightarrow> string" where
  "file_summary max_chars_per_file pc =
     (let truncated0 = take max_chars_per_file (snd pc);
          truncated = (if length (snd pc) > max_chars_per_file
                       then truncated0 @ newline @ ''... (truncated)'' else truncated0)
      in ''### '' @ fst pc @ newline @ fence @ newline @ truncated @ newline @ fence)"

definition get_project_context_summary :: "fpath \<Rightarrow> world \<Rightarrow> nat \<Rightarrow> nat \<Rightarrow> string" where
  "get_project_context_summary root w max_files max_chars_per_file =
     (let files_v = get_all_project_files root w
      in if files_v = [] then ''No files in project yet.''
         else join (newline @ newline)
                (map (file_summary max_chars_per_file) (take max_files files_v)
                 @ (if length files_v > max_files
                    then [''... and '' @ str_nat (length files_v - max_files) @ '' more files'']
                    else [])))"

text \<open>
  \<^verbatim>\<open>extract_and_execute_tool_call\<close>: a \<^verbatim>\<open>write_file\<close> call recovered from the error text is
  executed by hand.
\<close>

definition extract_and_execute_tool_call :: "env \<Rightarrow> world \<Rightarrow> string \<Rightarrow> bool \<times> world" where
  "extract_and_execute_tool_call e w error_message =
     (case decode_write_file_call e error_message of
        None \<Rightarrow> (False, w)
      | Some (path_v, content_v) \<Rightarrow>
          if path_v \<noteq> [] \<and> content_v \<noteq> [] then
            (case write_file (PROJECT_ROOT e) w path_v content_v of
               (result, w') \<Rightarrow> (py_in ''SUCCESS'' result \<or> py_in ''Wrote'' result, w'))
          else (False, w))"

definition extract_code_from_response :: "env \<Rightarrow> string \<Rightarrow> string option" where
  "extract_code_from_response e response_text =
     first_fenced e [FenceKnownLang, FencePlain] response_text"

text \<open>The third tier: a plain request for the body of the file, written by the stage.\<close>

definition direct_generation :: "env \<Rightarrow> world \<Rightarrow> ImplementationTask \<Rightarrow> bool \<times> world" where
  "direct_generation e w current_task =
     (case llm_invoke e (llm_calls w)
             (CoderFallbackPrompt (filepath current_task) (task_description current_task)) of
        Inl fallback_error \<Rightarrow> (False, tick_llm w)
      | Inr content0 \<Rightarrow>
          (let w1 = tick_llm w;
               content1 = (case extract_code_from_response e content0 of
                             None \<Rightarrow> content0
                           | Some extracted \<Rightarrow> if extracted \<noteq> [] then extracted else content0);
               content2 = strip content1;
               content3 =
                 (if prefix fence content2 then
                    (let lines = split_char CHR 0x0A content2
                     in if length lines > 2 then join newline (butlast (tl lines)) else content2)
                  else content2)
           in if content3 \<noteq> [] then
                (case write_file (PROJECT_ROOT e) w1 (filepath current_task) content3 of
                   (write_result, w2) \<Rightarrow> (py_in ''SUCCESS'' write_result, w2))
              else (False, w1)))"

definition coder_request :: "env \<Rightarrow> world \<Rightarrow> ImplementationTask \<Rightarrow> prompt" where
  "coder_request e w current_task =
     (let existing_content0 = read_file (PROJECT_ROOT e) w (filepath current_task);
          existing_content = (if prefix ''ERROR'' existing_content0 then [] else existing_content0);
          project_context = get_project_context_summary (PROJECT_ROOT e) w 5 300
      in CoderTaskPrompt (task_description current_task) (filepath current_task)
           existing_content project_context)"

text \<open>
  The body of the outer \<^verbatim>\<open>try\<close> up to the value of \<^verbatim>\<open>file_written\<close>: \<open>Inl\<close> is an exception
  that reaches the outer handler.
\<close>

definition code_step :: "env \<Rightarrow> world \<Rightarrow> ImplementationTask \<Rightarrow> (string + bool) \<times> world" where
  "code_step e w current_task =
     (let user_prompt_v = coder_request e w current_task
      in case prepare_error e (llm_calls w) of
           Some err \<Rightarrow> (Inl err, w)
         | None \<Rightarrow>
             (case react_agent_invoke e (llm_calls w) user_prompt_v (disk w) of
                (result, disk') \<Rightarrow>
                  (let w1 = tick_llm (w\<lparr>disk := disk'\<rparr>)
                   in case result of
                        Inr u \<Rightarrow> (Inr True, w1)
                      | Inl error_str \<Rightarrow>
                          (case (if py_in ''failed_generation'' error_str
                                 then extract_and_execute_tool_call e w1 error_str
                                 else (False, w1)) of
                             (file_written, w2) \<Rightarrow>
                               if \<not> file_written then
                                 (case direct_generation e w2 current_task of
                                    (file_written3, w3) \<Rightarrow> (Inr file_written3, w3))
                               else (Inr file_written, w2)))))"

datatype py_exception = IndexError

text \<open>\<^verbatim>\<open>xs[i]\<close>: a negative index counts from the end.\<close>

definition py_index :: "'a list \<Rightarrow> int \<Rightarrow> 'a option" where
  "py_index xs i =
     (let n = int (length xs)
      in if 0 \<le> i \<and> i < n then Some (xs ! nat i)
         else if - n \<le> i \<and> i < 0 then Some (xs ! nat (n + i))
         else None)"

definition coder_agent :: "env \<Rightarrow> world \<Rightarrow> pstate \<Rightarrow> (py_exception + pstate) \<times> world" where
  "coder_agent e w state =
     (let task_plan_v = s_task_plan state;
          plan_v = s_plan state
      in case task_plan_v of
           None \<Rightarrow>
             (Inr (empty_state\<lparr>s_current_phase := Some FAILED, s_status := Some ''FAILED'',
                     s_errors := Some [''No task plan provided to coder'']\<rparr>), w)
         | Some tp \<Rightarrow>
             (let coder_state_v =
                    (case s_coder_state state of
                       None \<Rightarrow> CoderState_init tp (Some 0) (Some []) (Some [])
                     | Some cs \<Rightarrow> cs);
                  steps = implementation_steps (task_plan coder_state_v);
                  result = empty_state\<lparr>s_plan := plan_v, s_task_plan := task_plan_v,
                             s_current_phase := Some CODING\<rparr>
              in if current_step_idx coder_state_v \<ge> int (length steps) then
                   (Inr (result\<lparr>s_coder_state := Some coder_state_v,
                           s_status := Some ''coded''\<rparr>), w)
                 else
                   (case py_index steps (current_step_idx coder_state_v) of
                      None \<Rightarrow> (Inl IndexError, w)
                    | Some current_task \<Rightarrow>
                        (case code_step e w current_task of
                           (outcome, w') \<Rightarrow>
                             (let coder_state1 =
                                    (case outcome of
                                       Inr True \<Rightarrow>
                                         coder_state_v\<lparr>completed_files :=
                                           completed_files coder_state_v
                                             @ [filepath current_task]\<rparr>
                                     | Inr False \<Rightarrow>
                                         coder_state_v\<lparr>failed_files :=
                                           failed_files coder_state_v
                                             @ [filepath current_task]\<rparr>
                                     | Inl err \<Rightarrow>
                                         coder_state_v\<lparr>failed_files :=
                                           failed_files coder_state_v
                                             @ [filepath current_task]\<rparr>);
                                  coder_state2 = coder_state1\<lparr>current_step_idx :=
                                                   current_step_idx coder_state1 + 1\<rparr>
                              in (Inr (result\<lparr>s_coder_state := Some coder_state2,
                                         s_status :=
                                           Some (if current_step_idx coder_state2
                                                      \<ge> int (length steps)
                                                 then ''coded'' else ''coding'')\<rparr>), w'))))))"

text \<open>
  \<open>n\<close> invocations of the Coder in a row, each on the dictionary that the one before
  returned; an exception ends the run.
\<close>

fun coder_run :: "env \<Rightarrow> nat \<Rightarrow> pstate \<times> world \<Rightarrow> (py_exception + pstate) \<times> world" where
  "coder_run e 0 sw = (Inr (fst sw), snd sw)"
| "coder_run e (Suc n) sw =
     (case coder_agent e (snd sw) (fst sw) of
        (Inl x, w') \<Rightarrow> (Inl x, w')
      | (Inr state', w') \<Rightarrow> coder_run e n (state', w'))"

text \<open>
  The coverage invariant of a CoderState: the index is within the step list, and the two
  lists hold the file paths of the steps before the index, each step in one of them.
\<close>

definition coder_inv :: "CoderState \<Rightarrow> bool" where
  "coder_inv cs =
     (let fps = map filepath (implementation_steps (task_plan cs))
      in 0 \<le> current_step_idx cs \<and> current_step_idx cs \<le> int (length fps)
         \<and> int (length (completed_files cs)) + int (length (failed_files cs))
             = current_step_idx cs
         \<and> set (completed_files cs) \<union> set (failed_files cs)
             = set (take (nat (current_step_idx cs)) fps)
         \<and> (if distinct fps then distinct (completed_files cs @ failed_files cs) else True))"

section \<open>Fixer (fixer.py)\<close>

definition lang_map :: "(string \<times> string list) list" where
  "lang_map =
     [(''js'', [''javascript'', ''js'']), (''py'', [''python'', ''py'']), (''html'', [''html'']),
      (''css'', [''css'']), (''json'', [''json''])]"

text \<open>\<^verbatim>\<open>extract_code_from_response\<close> of the Fixer: the patterns of the file's languages first.\<close>

definition fixer_extract_code_from_response :: "env \<Rightarrow> string \<Rightarrow> string \<Rightarrow> string option" where
  "fixer_extract_code_from_response e response_text file_extension =
     first_fenced e
       ((case map_of lang_map file_extension of
           None \<Rightarrow> [] | Some langs \<Rightarrow> map FenceLang langs)
        @ [FenceKnownLang, FencePlain])
       response_text"

text \<open>
  The index of the last line that is a closing fence, counted from \<open>i\<close> for the head of
  the list: the loop \<^verbatim>\<open>for i in range(len(lines) - 1, -1, -1)\<close> of \<^verbatim>\<open>clean_code_response\<close>.
\<close>

fun last_fence_line :: "string list \<Rightarrow> nat \<Rightarrow> nat option" where
  "last_fence_line [] i = None"
| "last_fence_line (l # ls) i =
     (case last_fence_line ls (Suc i) of
        Some j \<Rightarrow> Some j
      | None \<Rightarrow> if strip l = fence then Some i else None)"

definition clean_code_response :: "string \<Rightarrow> string" where
  "clean_code_response content0 =
     (let content1 = strip content0;
          content2 =
            (if prefix fence content1 then
               (let lines = split_char CHR 0x0A content1;
                    start_idx = (if prefix fence (hd lines) then 1 else 0);
                    end_idx = (case last_fence_line lines 0 of
                                 None \<Rightarrow> length lines | Some i \<Rightarrow> i)
                in join newline (take (end_idx - start_idx) (drop start_idx lines)))
             else content1)
      in strip content2)"

text \<open>The fixed body: the response stripped, then the largest fenced block or the cleaned text.\<close>

definition fixed_body :: "env \<Rightarrow> string \<Rightarrow> string \<Rightarrow> string" where
  "fixed_body e file_ext response =
     (let fixed_content = strip response
      in case fixer_extract_code_from_response e fixed_content file_ext of
           None \<Rightarrow> clean_code_response fixed_content
         | Some extracted \<Rightarrow>
             if extracted \<noteq> [] then extracted else clean_code_response fixed_content)"

text \<open>
  One round of \<^verbatim>\<open>for review in files_to_fix\<close>. The accumulator is the world and the local
  lists \<^verbatim>\<open>fixed_files\<close> and \<^verbatim>\<open>failed_fixes\<close>. After the failure for an unreadable file is
  recorded the round goes on (the \<^verbatim>\<open>continue\<close> of the source is commented out). The test
  \<^verbatim>\<open>new_length < original_length * 0.3\<close> is on a float; for lengths below \<open>2 ^ 50\<close> it holds
  exactly when \<open>10 * new_length < 3 * original_length\<close>, which is what is written here.
\<close>

definition fix_file ::
  "env \<Rightarrow> CodeReview \<Rightarrow> world \<times> string list \<times> (string \<times> string) list
   \<Rightarrow> world \<times> string list \<times> (string \<times> string) list" where
  "fix_file e review acc =
     (case acc of (w, fixed_files, failed_fixes0) \<Rightarrow>
        (let fp = review_filepath review;
             content = read_file (PROJECT_ROOT e) w fp;
             failed_fixes =
               (if content = [] \<or> prefix ''ERROR'' content
                then failed_fixes0 @ [(fp, ''Cannot read file'')] else failed_fixes0);
             original_length = length content;
             file_ext = file_ext_of fp
         in case llm_invoke e (llm_calls w) (FixPrompt file_ext fp content (issues review)) of
              Inl err \<Rightarrow>
                (tick_llm w, fixed_files, failed_fixes @ [(fp, ''Exception: '' @ take 100 err)])
            | Inr response \<Rightarrow>
                (let w1 = tick_llm w;
                     fixed_content = fixed_body e file_ext response
                 in if fixed_content = [] \<or> length (strip fixed_content) < 10 then
                      (w1, fixed_files, failed_fixes @ [(fp, ''Empty fix generated'')])
                    else
                      (let new_length = length fixed_content
                       in if 10 * new_length < 3 * original_length then
                            (w1, fixed_files,
                             failed_fixes @ [(fp, ''Fix too short, possible content loss'')])
                          else
                            (case write_file (PROJECT_ROOT e) w1 fp fixed_content of
                               (write_result, w2) \<Rightarrow>
                                 if py_in ''SUCCESS'' write_result
                                 then (w2, fixed_files @ [fp], failed_fixes)
                                 else (w2, fixed_files,
                                       failed_fixes
                                         @ [(fp, ''Write failed: '' @ write_result)]))))))"

text \<open>
  \<^verbatim>\<open>fixer_agent\<close> returns the dictionary; the world and the two lists that it prints in its
  summary are returned with it.
\<close>

definition fixer_agent ::
  "env \<Rightarrow> world \<Rightarrow> pstate \<Rightarrow> pstate \<times> world \<times> string list \<times> (string \<times> string) list" where
  "fixer_agent e w state =
     (let result = empty_state\<lparr>s_user_prompt := s_user_prompt state, s_plan := s_plan state,
                     s_task_plan := s_task_plan state, s_coder_state := s_coder_state state,
                     s_current_phase := Some FIXING, s_status := Some ''fixed''\<rparr>
      in case s_review_state state of
           None \<Rightarrow> (result, w, [], [])
         | Some review_state \<Rightarrow>
             (let files_to_fix =
                    filter (\<lambda>r. \<not> passed r \<and> issues r \<noteq> []) (reviews review_state);
                  review_state1 =
                    review_state\<lparr>reviews :=
                      map (\<lambda>r. if \<not> passed r \<and> issues r = [] then r\<lparr>passed := True\<rparr> else r)
                        (reviews review_state)\<rparr>;
                  result1 = result\<lparr>s_review_state := Some review_state1\<rparr>
              in if files_to_fix = [] then (result1, w, [], [])
                 else (case fold (fix_file e) files_to_fix (w, [], []) of
                         (w', fixed_files, failed_fixes) \<Rightarrow>
                           (result1, w', fixed_files, failed_fixes))))"

text \<open>The invariant of a CodeReview: a review that did not pass names an issue.\<close>

definition review_ok :: "CodeReview \<Rightarrow> bool" where
  "review_ok r = (passed r \<or> issues r \<noteq> [])"

section \<open>Example inputs\<close>

definition example_root :: fpath where
  "example_root = [''home'', ''proj'']"

definition example_world :: world where
  "example_world = \<lparr> disk = [], io_fault = (\<lambda>p. None), llm_calls = 0 \<rparr>"

definition example_review_state :: "int \<Rightarrow> int \<Rightarrow> bool \<Rightarrow> ReviewState" where
  "example_review_state i m a = \<lparr> reviews = [], iteration = i, max_iterations = m, all_passed = a \<rparr>"

definition example_plan :: Plan where
  "example_plan =
     \<lparr> name = ''todo'', plan_description = ''A todo list'', techstack = ''html/css/js'',
       features = [''add items'', ''remove items''],
       files =
         [\<lparr> path = ''index.html'', purpose = ''markup'', file_dependencies = [] \<rparr>,
          \<lparr> path = ''style.css'', purpose = ''styling'', file_dependencies = [] \<rparr>,
          \<lparr> path = ''script.js'', purpose = ''behaviour'', file_dependencies = [] \<rparr>],
       architecture_notes = [] \<rparr>"

definition example_task_plan :: TaskPlan where
  "example_task_plan =
     \<lparr> plan = None,
       implementation_steps =
         [\<lparr> filepath = ''index.html'', task_description = ''the page'', dependencies = [],
            expected_exports = [], priority = 1 \<rparr>],
       total_estimated_tokens = 0 \<rparr>"

text \<open>
  A language model whose structured review fails the file without naming an issue, and
  whose tool-using agent returns without writing anything.
\<close>

definition example_env :: env where
  "example_env =
     \<lparr> PROJECT_ROOT = example_root,
       prepare_error = (\<lambda>n. None),
       react_agent_invoke = (\<lambda>n p d. (Inr (), d)),
       llm_invoke = (\<lambda>n p. Inr ''FAIL''),
       llm_structured_review =
         (\<lambda>n p. Inr (Some \<lparr> review_filepath = ''index.html'', issues = [], passed = False,
                             overall_quality = 3, summary = ''poor'' \<rparr>)),
       decode_review_payload = (\<lambda>s. None),
       decode_write_file_call = (\<lambda>s. None),
       re_findall = (\<lambda>pat s. []),
       re_sub_markdown = (\<lambda>s. s) \<rparr>"

definition example_world_html :: world where
  "example_world_html =
     \<lparr> disk = [([''home'', ''proj'', ''index.html''], ''<html></html>'')],
       io_fault = (\<lambda>p. None), llm_calls = 0 \<rparr>"

definition example_upgraded_review :: CodeReview where
  "example_upgraded_review =
     \<lparr> review_filepath = ''index.html'',
       issues = [make_issue ''unspecified''
                   ''Review failed for index.html without specific issues''
                   ''Manual review recommended'' MEDIUM],
       passed = False, overall_quality = 3, summary = ''poor'' \<rparr>"

definition example_two_step_plan :: TaskPlan where
  "example_two_step_plan =
     \<lparr> plan = None,
       implementation_steps =
         [\<lparr> filepath = ''a.js'', task_description = ''first'', dependencies = [],
            expected_exports = [], priority = 1 \<rparr>,
          \<lparr> filepath = ''b.js'', task_description = ''second'', dependencies = [],
            expected_exports = [], priority = 2 \<rparr>],
       total_estimated_tokens = 0 \<rparr>"

text \<open>A task plan with two steps for the same file.\<close>

definition example_dup_plan :: TaskPlan where
  "example_dup_plan =
     \<lparr> plan = None,
       implementation_steps =
         [\<lparr> filepath = ''a.js'', task_description = ''first'', dependencies = [],
            expected_exports = [], priority = 1 \<rparr>,
          \<lparr> filepath = ''a.js'', task_description = ''second'', dependencies = [],
            expected_exports = [], priority = 2 \<rparr>],
       total_estimated_tokens = 0 \<rparr>"

text \<open>
  A language model that is down for the first step (the agent raises on request 0, the
  plain request raises) and answers from then on.
\<close>

definition flaky_env :: env where
  "flaky_env =
     example_env\<lparr>react_agent_invoke :=
                   (\<lambda>n p d. if n = 0 then (Inl ''connection lost'', d) else (Inr (), d)),
                 llm_invoke := (\<lambda>n p. Inl ''connection lost'')\<rparr>"

definition example_js_review :: CodeReview where
  "example_js_review =
     \<lparr> review_filepath = ''app.js'',
       issues = [make_issue ''logic'' ''total is never updated'' ''add to total in the loop'' HIGH],
       passed = False, overall_quality = 4, summary = ''FAIL'' \<rparr>"

definition example_passed_review :: CodeReview where
  "example_passed_review =
     \<lparr> review_filepath = ''index.html'', issues = [], passed = True, overall_quality = 8,
       summary = ''PASS'' \<rparr>"

text \<open>A project tree with \<^verbatim>\<open>app.js\<close> of 40 characters.\<close>

definition example_world_js :: world where
  "example_world_js =
     \<lparr> disk = [([''home'', ''proj'', ''app.js''], ''var total = 0; var count = 0; var i = 0;'')],
       io_fault = (\<lambda>p. None), llm_calls = 0 \<rparr>"

text \<open>A language model that answers a fix request with 11 characters, and one with 32.\<close>

definition short_fix_env :: env where
  "short_fix_env = example_env\<lparr>llm_invoke := (\<lambda>n p. Inr ''let x = 12;'')\<rparr>"

definition long_fix_env :: env where
  "long_fix_env = example_env\<lparr>llm_invoke := (\<lambda>n p. Inr ''console.log(1); console.log(2);'')\<rparr>"

text \<open>Two project trees that differ only outside the root.\<close>

definition example_world_b :: world where
  "example_world_b =
     \<lparr> disk = [([''home'', ''proj'', ''b.txt''], ''data'')],
       io_fault = (\<lambda>p. None), llm_calls = 0 \<rparr>"

definition example_world_secret :: world where
  "example_world_secret =
     \<lparr> disk = [([''etc'', ''passwd''], ''root:x:0:0''), ([''home'', ''proj'', ''b.txt''], ''data'')],
       io_fault = (\<lambda>p. None), llm_calls = 0 \<rparr>"

text \<open>
  A task plan for \<^verbatim>\<open>index.html\<close> and \<^verbatim>\<open>app.js\<close>, and a state at the cap of the review loop
  in which \<^verbatim>\<open>index.html\<close> has passed and \<^verbatim>\<open>app.js\<close> has failed.
\<close>

definition example_review_plan :: TaskPlan where
  "example_review_plan =
     \<lparr> plan = None,
       implementation_steps =
         [\<lparr> filepath = ''index.html'', task_description = ''the page'', dependencies = [],
            expected_exports = [], priority = 1 \<rparr>,
          \<lparr> filepath = ''app.js'', task_description = ''the script'', dependencies = [],
            expected_exports = [], priority = 3 \<rparr>],
       total_estimated_tokens = 0 \<rparr>"

definition example_review_loop_state :: "int \<Rightarrow> pstate" where
  "example_review_loop_state i =
     empty_state\<lparr>s_task_plan := Some example_review_plan,
       s_review_state :=
         Some \<lparr> reviews = [example_passed_review, example_js_review], iteration = i,
                max_iterations = 5, all_passed = False \<rparr>\<rparr>"

text \<open>
  \<^verbatim>\<open>app.js\<close> with ten lines that end in \<^verbatim>\<open>\r\n\<close>: 40 characters on disk, 30 as read. A
  language model that answers a fix request with 10 characters.
\<close>

definition crlf_line :: string where
  "crlf_line = [CHR ''a'', CHR ''b'', CHR 0x0D, CHR 0x0A]"

definition example_world_crlf :: world where
  "example_world_crlf =
     \<lparr> disk = [([''home'', ''proj'', ''app.js''],
                crlf_line @ crlf_line @ crlf_line @ crlf_line @ crlf_line
                @ crlf_line @ crlf_line @ crlf_line @ crlf_line @ crlf_line)],
       io_fault = (\<lambda>p. None), llm_calls = 0 \<rparr>"

definition ten_char_fix_env :: env where
  "ten_char_fix_env = example_env\<lparr>llm_invoke := (\<lambda>n p. Inr ''let x = 1;'')\<rparr>"

lemmas example_defs =
  example_root_def example_world_def example_review_state_def example_task_plan_def
  example_env_def example_world_html_def example_upgraded_review_def empty_state_def
  example_two_step_plan_def example_dup_plan_def flaky_env_def example_js_review_def
  example_passed_review_def example_world_js_def short_fix_env_def long_fix_env_def
  example_world_b_def example_world_secret_def example_review_plan_def
  example_review_loop_state_def crlf_line_def example_world_crlf_def ten_char_fix_env_def

lemmas file_tool_defs =
  read_file_def write_file_def safe_path_for_project_def is_absolute_def path_name_def
  py_parts_def resolve_def strip_def is_space_def

section \<open>Properties of the file tools\<close>





lemma safe_path_rejected_outside:
  "safe_path_for_project root a = Inl msg \<Longrightarrow>
     \<not> prefix (resolve root)
         (resolve (root @ py_parts (if is_absolute a then path_name a else a)))"
  by (auto simp: safe_path_for_project_def Let_def split: if_splits)





lemma safe_path_eq:
  "safe_path_for_project root a =
     (if prefix (resolve root) (target_path root a) then Inr (target_path root a)
      else Inl (''Security Error: Attempt to access path outside project root: ''
                @ (if is_absolute a then path_name a else a)))"
  by (simp add: safe_path_for_project_def target_path_def Let_def)








lemma safe_path_outside_rejected:
  "\<not> prefix (resolve root) (target_path root a) \<Longrightarrow>
     \<exists>msg. safe_path_for_project root a = Inl msg"
  by (simp add: safe_path_eq)



lemma write_file_llm_calls: "llm_calls (snd (write_file root w a c)) = llm_calls w"
  by (simp add: write_file_def split: sum.splits option.splits)

section \<open>Properties of the fallback task plan\<close>

lemma file_ext_dotted_html: "file_ext_dotted ''index.html'' = ''.html''"
  by (simp add: file_ext_dotted_def)

lemma file_ext_dotted_css: "file_ext_dotted ''style.css'' = ''.css''"
  by (simp add: file_ext_dotted_def)

lemma file_ext_dotted_js: "file_ext_dotted ''script.js'' = ''.js''"
  by (simp add: file_ext_dotted_def)

lemma fallback_steps_sorted:
  "sorted (map priority (implementation_steps (create_fallback_task_plan pl)))"
  by (simp add: create_fallback_task_plan_def Let_def)

section \<open>Properties of the Reviewer\<close>

lemma add_unspecified_issue_ok: "review_ok (add_unspecified_issue fp r)"
  by (simp add: add_unspecified_issue_def review_ok_def)

lemma review_file_ok: "review_file e w step content = (Inr r, w') \<Longrightarrow> review_ok r"
  by (auto simp: review_file_def Let_def add_unspecified_issue_ok
      split: option.splits sum.splits if_splits)

lemma update_set_cases: "x \<in> set (AList.update k v al) \<Longrightarrow> x = (k, v) \<or> x \<in> set al"
  by (induction al) (auto split: if_splits)

lemma preserved_fold_passed:
  "\<forall>x \<in> set d. passed (snd x) \<Longrightarrow>
   \<forall>x \<in> set (fold (\<lambda>r d. if passed r then AList.update (review_filepath r) r d else d) rs d).
      passed (snd x)"
proof (induction rs arbitrary: d)
  case Nil
  then show ?case by simp
next
  case (Cons r rs)
  show ?case
  proof (cases "passed r")
    case True
    have "\<forall>x \<in> set (AList.update (review_filepath r) r d). passed (snd x)"
      using Cons.prems True by (auto dest: update_set_cases)
    from Cons.IH [OF this] True show ?thesis by simp
  next
    case False
    with Cons.IH [OF Cons.prems] show ?thesis by simp
  qed
qed

lemma preserved_passed:
  "(k, r) \<in> set (fold (\<lambda>r d. if passed r then AList.update (review_filepath r) r d else d) rs [])
   \<Longrightarrow> passed r"
  using preserved_fold_passed [of "[]" rs] by force

lemma review_step_ok:
  assumes "\<forall>x \<in> set pres. passed (snd x)" and "\<forall>r \<in> set rv. review_ok r"
    and "review_step e pres ftr step (rv, ap, w) = (rv', ap', w')"
  shows "\<forall>r \<in> set rv'. review_ok r"
proof -
  have pres_ok: "\<And>r. map_of pres (filepath step) = Some r \<Longrightarrow> review_ok r"
    using assms(1) by (auto simp: review_ok_def dest!: map_of_SomeD)
  have miss: "review_ok (missing_review (filepath step))"
    by (simp add: review_ok_def missing_review_def)
  have err: "\<And>x. review_ok (error_review (filepath step) x)"
    by (simp add: review_ok_def error_review_def)
  show ?thesis
    using assms(2,3) pres_ok miss err
    by (auto simp: review_step_def Let_def dest: review_file_ok
        split: option.splits if_splits prod.splits sum.splits)
qed

lemma review_fold_ok:
  assumes "\<forall>x \<in> set pres. passed (snd x)"
  shows "\<forall>r \<in> set rv. review_ok r \<Longrightarrow>
     fold (review_step e pres ftr) steps (rv, ap, w) = (rv', ap', w') \<Longrightarrow>
     \<forall>r \<in> set rv'. review_ok r"
proof (induction steps arbitrary: rv ap w)
  case Nil
  then show ?case by simp
next
  case (Cons step steps)
  obtain rv1 ap1 w1 where st: "review_step e pres ftr step (rv, ap, w) = (rv1, ap1, w1)"
    by (cases "review_step e pres ftr step (rv, ap, w)") auto
  have "\<forall>r \<in> set rv1. review_ok r"
    using review_step_ok [OF assms Cons.prems(1) st] .
  moreover have "fold (review_step e pres ftr) steps (rv1, ap1, w1) = (rv', ap', w')"
    using Cons.prems(2) st by simp
  ultimately show ?case by (rule Cons.IH)
qed

lemma reviewer_reviews_ok:
  assumes "s_review_state (fst (reviewer_agent e w state)) = Some rs'"
  shows "\<forall>r \<in> set (reviews rs'). review_ok r"
proof -
  define pres where "pres = (case s_review_state state of None \<Rightarrow> []
     | Some ex \<Rightarrow> fold (\<lambda>r d. if passed r then AList.update (review_filepath r) r d else d)
                           (reviews ex) [])"
  have pres_passed: "\<forall>x \<in> set pres. passed (snd x)"
    by (auto simp: pres_def dest: preserved_passed split: option.splits)
  then have pres_ok: "\<forall>r \<in> set (map snd pres). review_ok r"
    by (auto simp: review_ok_def)
  have loop: "\<And>ftr steps rv ap w'. fold (review_step e pres ftr) steps ([], True, w) = (rv, ap, w')
      \<Longrightarrow> \<forall>r \<in> set rv. review_ok r"
    using review_fold_ok [OF pres_passed, of "[]"] by simp
  show ?thesis
    using assms pres_ok loop
    unfolding reviewer_agent_def Let_def pres_def [symmetric]
    by (auto simp: empty_state_def ReviewState_init_def split: option.splits if_splits prod.splits)
qed

lemma reviewer_cap:
  assumes rs: "s_review_state state = Some rs" and cap: "max_iterations rs \<le> iteration rs + 1"
    and cs: "s_coder_state state \<noteq> None \<or> s_task_plan state \<noteq> None"
  shows "\<exists>rs'. s_review_state (fst (reviewer_agent e w state)) = Some rs' \<and> all_passed rs'
           \<and> iteration rs' = iteration rs + 1 \<and> max_iterations rs' = max_iterations rs
           \<and> (\<forall>r \<in> set (reviews rs'). passed r)"
    and "s_status (fst (reviewer_agent e w state)) = Some ''review_max_iterations''"
    and "snd (reviewer_agent e w state) = w"
  using assms
  by (auto simp: reviewer_agent_def Let_def empty_state_def ReviewState_init_def
      dest: preserved_passed split: option.splits)

lemma reviewer_no_inputs:
  assumes "s_coder_state state = None" and "s_task_plan state = None"
  shows "s_review_state (fst (reviewer_agent e w state)) = None"
    and "s_current_phase (fst (reviewer_agent e w state)) = Some FAILED"
  using assms by (simp_all add: reviewer_agent_def Let_def empty_state_def)

lemma reviewer_max_iterations:
  assumes "s_review_state (fst (reviewer_agent e w state)) = Some rs'"
  shows "max_iterations rs' = (case s_review_state state of None \<Rightarrow> 5 | Some ex \<Rightarrow> max_iterations ex)"
  using assms
  by (auto simp: reviewer_agent_def Let_def empty_state_def ReviewState_init_def
      split: option.splits if_splits prod.splits)

section \<open>Properties of the Coder\<close>

lemma coder_inv_fresh: "coder_inv (CoderState_init tp (Some 0) (Some []) (Some []))"
  by (simp add: coder_inv_def CoderState_init_def)

lemma coder_inv_fresh_default: "coder_inv (CoderState_init tp None None None)"
  by (simp add: coder_inv_def CoderState_init_def)

lemma take_nat_succ:
  assumes "0 \<le> i" and "i < int (length xs)"
  shows "take (nat (i + 1)) xs = take (nat i) xs @ [xs ! nat i]"
proof -
  from assms have "nat (i + 1) = Suc (nat i)" and "nat i < length xs"
    by auto
  then show ?thesis
    by (simp add: take_Suc_conv_app_nth)
qed

lemma nth_not_in_take:
  assumes "distinct xs" and "n < length xs"
  shows "xs ! n \<notin> set (take n xs)"
proof -
  from assms(1) have "distinct (take (Suc n) xs)"
    by (rule distinct_take)
  with assms(2) show ?thesis
    by (simp add: take_Suc_conv_app_nth)
qed

lemma coder_inv_step:
  assumes inv: "coder_inv cs"
    and lt: "current_step_idx cs < int (length (implementation_steps (task_plan cs)))"
    and fp: "fp = filepath (implementation_steps (task_plan cs) ! nat (current_step_idx cs))"
  shows "coder_inv (cs\<lparr>completed_files := completed_files cs @ [fp],
                        current_step_idx := current_step_idx cs + 1\<rparr>)"
    and "coder_inv (cs\<lparr>failed_files := failed_files cs @ [fp],
                        current_step_idx := current_step_idx cs + 1\<rparr>)"
proof -
  let ?fps = "map filepath (implementation_steps (task_plan cs))"
  let ?i = "current_step_idx cs"
  from inv have ge: "0 \<le> ?i"
    and len: "int (length (completed_files cs)) + int (length (failed_files cs)) = ?i"
    and cov: "set (completed_files cs) \<union> set (failed_files cs) = set (take (nat ?i) ?fps)"
    and dis: "distinct ?fps \<Longrightarrow> distinct (completed_files cs @ failed_files cs)"
    by (simp_all add: coder_inv_def Let_def split: if_splits)
  from lt have lt': "?i < int (length ?fps)" by simp
  from ge lt have n: "nat ?i < length ?fps" by simp
  have fp': "fp = ?fps ! nat ?i"
    using fp n by simp
  have tk: "take (nat (?i + 1)) ?fps = take (nat ?i) ?fps @ [fp]"
    using take_nat_succ [OF ge lt'] fp' by simp
  have new: "distinct ?fps \<Longrightarrow> fp \<notin> set (completed_files cs) \<union> set (failed_files cs)"
    using nth_not_in_take [of ?fps "nat ?i"] n cov fp' by simp
  show "coder_inv (cs\<lparr>completed_files := completed_files cs @ [fp],
                        current_step_idx := ?i + 1\<rparr>)"
    using ge lt len cov dis new tk
    by (auto simp: coder_inv_def Let_def)
  show "coder_inv (cs\<lparr>failed_files := failed_files cs @ [fp],
                        current_step_idx := ?i + 1\<rparr>)"
    using ge lt len cov dis new tk
    by (auto simp: coder_inv_def Let_def)
qed

lemma py_index_in_range:
  "0 \<le> i \<Longrightarrow> i < int (length xs) \<Longrightarrow> py_index xs i = Some (xs ! nat i)"
  by (simp add: py_index_def)

lemma coder_agent_inv:
  assumes tp: "s_task_plan state = Some tp"
    and inv: "\<And>cs. s_coder_state state = Some cs \<Longrightarrow> coder_inv cs"
  shows "\<exists>st w' cs. coder_agent e w state = (Inr st, w') \<and> s_task_plan st = Some tp
           \<and> s_coder_state st = Some cs \<and> coder_inv cs"
proof -
  define cs0 where "cs0 = (case s_coder_state state of
      None \<Rightarrow> CoderState_init tp (Some 0) (Some []) (Some []) | Some cs \<Rightarrow> cs)"
  have inv0: "coder_inv cs0"
    using inv by (auto simp: cs0_def coder_inv_fresh split: option.splits)
  let ?steps = "implementation_steps (task_plan cs0)"
  show ?thesis
  proof (cases "current_step_idx cs0 \<ge> int (length ?steps)")
    case True
    then show ?thesis
      using inv0
      by (simp add: coder_agent_def tp Let_def empty_state_def flip: cs0_def)
  next
    case False
    then have lt: "current_step_idx cs0 < int (length ?steps)" by simp
    from inv0 have ge: "0 \<le> current_step_idx cs0"
      by (simp add: coder_inv_def Let_def)
    let ?task = "?steps ! nat (current_step_idx cs0)"
    have idx: "py_index ?steps (current_step_idx cs0) = Some ?task"
      using py_index_in_range [OF ge lt] .
    obtain outcome w' where cstep: "code_step e w ?task = (outcome, w')"
      by (cases "code_step e w ?task") auto
    note st = coder_inv_step [OF inv0 lt refl]
    show ?thesis
    proof (cases outcome)
      case (Inl err)
      with False idx cstep st(2) show ?thesis
        by (simp add: coder_agent_def tp Let_def empty_state_def flip: cs0_def)
    next
      case (Inr file_written)
      with False idx cstep st show ?thesis
        by (cases file_written)
          (simp_all add: coder_agent_def tp Let_def empty_state_def flip: cs0_def)
    qed
  qed
qed

lemma coder_run_inv:
  assumes tp: "s_task_plan state = Some tp"
    and inv: "\<And>cs. s_coder_state state = Some cs \<Longrightarrow> coder_inv cs"
  shows "\<exists>st w'. coder_run e n (state, w) = (Inr st, w') \<and> s_task_plan st = Some tp
           \<and> (0 < n \<longrightarrow> s_coder_state st \<noteq> None)
           \<and> (\<forall>cs. s_coder_state st = Some cs \<longrightarrow> coder_inv cs)"
  using assms
proof (induction n arbitrary: state w)
  case 0
  then show ?case by simp
next
  case (Suc n)
  from coder_agent_inv [of state tp e w] Suc.prems
  obtain st1 w1 cs1 where ag: "coder_agent e w state = (Inr st1, w1)"
    and tp1: "s_task_plan st1 = Some tp" and cs1: "s_coder_state st1 = Some cs1"
    and inv1: "coder_inv cs1"
    by blast
  from Suc.IH [of st1 w1] tp1 cs1 inv1
  obtain st w' where run: "coder_run e n (st1, w1) = (Inr st, w')"
    and tpn: "s_task_plan st = Some tp"
    and pos: "0 < n \<longrightarrow> s_coder_state st \<noteq> None"
    and invn: "\<forall>cs. s_coder_state st = Some cs \<longrightarrow> coder_inv cs"
    by auto
  have nn: "s_coder_state st \<noteq> None"
  proof (cases n)
    case 0
    with run cs1 show ?thesis by simp
  next
    case (Suc m)
    with pos show ?thesis by simp
  qed
  from ag run tpn nn invn show ?case by simp
qed

lemmas coder_eval_defs =
  coder_agent_def code_step_def direct_generation_def extract_and_execute_tool_call_def
  py_index_def CoderState_init_def tick_llm_def Let_def

lemma coder_agent_react_ok:
  assumes tp: "s_task_plan state = Some tp"
    and cs: "cs = (case s_coder_state state of
                    None \<Rightarrow> CoderState_init tp (Some 0) (Some []) (Some []) | Some c \<Rightarrow> c)"
    and lt: "current_step_idx cs < int (length (implementation_steps (task_plan cs)))"
    and idx: "py_index (implementation_steps (task_plan cs)) (current_step_idx cs) = Some task"
    and prep: "prepare_error e (llm_calls w) = None"
    and react: "react_agent_invoke e (llm_calls w) (coder_request e w task) (disk w) = (Inr (), d')"
  shows "\<exists>st. coder_agent e w state = (Inr st, tick_llm (w\<lparr>disk := d'\<rparr>))
           \<and> s_coder_state st
               = Some (cs\<lparr>completed_files := completed_files cs @ [filepath task],
                         current_step_idx := current_step_idx cs + 1\<rparr>)"
proof -
  have step: "code_step e w task = (Inr True, tick_llm (w\<lparr>disk := d'\<rparr>))"
    using prep react by (simp add: code_step_def Let_def)
  show ?thesis
    using lt idx step
    by (simp add: coder_agent_def tp Let_def empty_state_def flip: cs)
qed

lemma coder_example_unwritten:
  "coder_agent example_env example_world (empty_state\<lparr>s_task_plan := Some example_task_plan\<rparr>)
     = (Inr (empty_state\<lparr>s_task_plan := Some example_task_plan,
               s_coder_state :=
                 Some \<lparr> task_plan = example_task_plan, current_step_idx = 1,
                        completed_files = [''index.html''], failed_files = [],
                        current_file_content = None \<rparr>,
               s_current_phase := Some CODING, s_status := Some ''coded''\<rparr>),
        tick_llm example_world)"
  by (simp add: coder_eval_defs example_defs)

lemma example_index_html_absent:
  "disk (tick_llm example_world) = []
   \<and> read_file (PROJECT_ROOT example_env) (tick_llm example_world) ''index.html'' = []"
  by (simp add: tick_llm_def file_tool_defs example_defs)

section \<open>Properties of the Fixer\<close>

lemmas fixer_eval_defs =
  fix_file_def fixed_body_def fixer_extract_code_from_response_def file_ext_of_def lang_map_def
  clean_code_response_def fence_def lower_def lower_char_def tick_llm_def Let_def
  str_nat.simps digit_char_def

text \<open>Every round of the Fixer's loop makes its request, whatever it read.\<close>

lemma fix_file_always_requests:
  "llm_calls (fst (fix_file e review (w, fixed_files, failed_fixes))) = Suc (llm_calls w)"
  by (simp add: fix_file_def Let_def tick_llm_def write_file_def
      split: sum.splits prod.splits option.splits)

text \<open>
  The original length is that of the text as read: a file of 40 characters with ten
  \<^verbatim>\<open>\r\n\<close> reads as 30, so a fix of 10 characters is not below 30% and is written.
\<close>

lemma fix_file_example_crlf:
  "length (read_file (PROJECT_ROOT ten_char_fix_env) example_world_crlf ''app.js'') = 30
   \<and> fix_file ten_char_fix_env example_js_review (example_world_crlf, [], [])
       = (\<lparr> disk = [([''home'', ''proj'', ''app.js''], ''let x = 1;'')],
            io_fault = (\<lambda>p. None), llm_calls = 1 \<rparr>,
          [''app.js''], [])"
  by (simp add: fixer_eval_defs file_tool_defs example_defs)

text \<open>The world and the two lists of \<^verbatim>\<open>fixer_agent\<close> are those of its loop over the candidates.\<close>

lemma fixer_agent_candidates:
  assumes "s_review_state state = Some rs"
  shows "snd (fixer_agent e w state)
         = fold (fix_file e) (filter (\<lambda>r. \<not> passed r \<and> issues r \<noteq> []) (reviews rs)) (w, [], [])"
  using assms by (simp add: fixer_agent_def Let_def split: prod.splits)


text \<open>
  Scenario C of the specification: of a passed and a failed review the Fixer attempts the
  failed one only; the fix of 11 characters for a file of 40 is rejected.
\<close>

lemma fixer_agent_example_short:
  "fixer_agent short_fix_env example_world_js
     (empty_state\<lparr>s_review_state :=
        Some \<lparr> reviews = [example_passed_review, example_js_review], iteration = 0,
               max_iterations = 5, all_passed = False \<rparr>\<rparr>)
   = (empty_state\<lparr>s_review_state :=
        Some \<lparr> reviews = [example_passed_review, example_js_review], iteration = 0,
               max_iterations = 5, all_passed = False \<rparr>,
        s_current_phase := Some FIXING, s_status := Some ''fixed''\<rparr>,
      tick_llm example_world_js, [],
      [(''app.js'', ''Fix too short, possible content loss'')])"
  by (simp add: fixer_agent_def fixer_eval_defs file_tool_defs example_defs)

section \<open>Claims\<close>

text \<open>
  C3. After the Reviewer the router selects the Fixer exactly when the state carries a
  review state whose \<open>all_passed\<close> is false and whose iteration counter is below
  \<open>max_iterations\<close>; in every other case (all passed, cap reached, no review state) it
  selects the TestGenerator. The conditional edge of \<^verbatim>\<open>create_graph\<close> maps the two
  answers to the nodes of the same names.
\<close>

theorem route_after_review_fixer_iff:
  "(route_after_review state = ''fixer'' \<longleftrightarrow>
      (\<exists>rs. s_review_state state = Some rs \<and> \<not> all_passed rs \<and> iteration rs < max_iterations rs))
   \<and> (route_after_review state = ''test_generator'' \<longleftrightarrow>
      \<not> (\<exists>rs. s_review_state state = Some rs \<and> \<not> all_passed rs \<and> iteration rs < max_iterations rs))
   \<and> next_node reviewer state =
       Some (if route_after_review state = ''fixer'' then fixer else test_generator)"
  by (auto simp: route_after_review_def split: option.splits)

theorem route_after_review_fixer_iff_witness:
  "route_after_review (empty_state\<lparr>s_review_state := Some (example_review_state 1 5 False)\<rparr>) = ''fixer''
   \<and> route_after_review (empty_state\<lparr>s_review_state := Some (example_review_state 5 5 False)\<rparr>)
       = ''test_generator''
   \<and> route_after_review (empty_state\<lparr>s_review_state := Some (example_review_state 1 5 True)\<rparr>)
       = ''test_generator''
   \<and> next_node reviewer (empty_state\<lparr>s_review_state := Some (example_review_state 1 5 False)\<rparr>)
       = Some fixer"
  using route_after_review_fixer_iff
    [of "empty_state\<lparr>s_review_state := Some (example_review_state 1 5 False)\<rparr>"]
    route_after_review_fixer_iff
    [of "empty_state\<lparr>s_review_state := Some (example_review_state 5 5 False)\<rparr>"]
    route_after_review_fixer_iff
    [of "empty_state\<lparr>s_review_state := Some (example_review_state 1 5 True)\<rparr>"]
  by (simp add: empty_state_def example_review_state_def)




text \<open>
  C5, as the code has it. For a Plan whose files are exactly \<^verbatim>\<open>index.html\<close>, \<^verbatim>\<open>style.css\<close>,
  \<^verbatim>\<open>script.js\<close> in that order, the fallback synthesizer assigns \<^verbatim>\<open>index.html\<close> priority 1
  (the table's entry for \<^verbatim>\<open>.html\<close>), \<^verbatim>\<open>style.css\<close> priority 2 and \<^verbatim>\<open>script.js\<close> priority 3,
  and returns the steps in that order.
\<close>

theorem fallback_html_css_js:
  assumes "map path (files pl) = [''index.html'', ''style.css'', ''script.js'']"
  shows "map (\<lambda>t. (filepath t, priority t)) (implementation_steps (create_fallback_task_plan pl))
         = [(''index.html'', 1), (''style.css'', 2), (''script.js'', 3)]"
proof -
  from assms obtain f1 f2 f3 where fs: "files pl = [f1, f2, f3]"
    and p1: "path f1 = ''index.html''" and p2: "path f2 = ''style.css''"
    and p3: "path f3 = ''script.js''"
    by (auto simp: map_eq_Cons_conv)
  show ?thesis
    by (simp add: create_fallback_task_plan_def fallback_step_def fs p1 p2 p3
        file_ext_dotted_html file_ext_dotted_css file_ext_dotted_js priority_map_def Let_def)
qed

theorem fallback_html_css_js_witness:
  "map path (files example_plan) = [''index.html'', ''style.css'', ''script.js'']
   \<and> map (\<lambda>t. (filepath t, priority t))
        (implementation_steps (create_fallback_task_plan example_plan))
       = [(''index.html'', 1), (''style.css'', 2), (''script.js'', 3)]"
proof -
  have h: "map path (files example_plan) = [''index.html'', ''style.css'', ''script.js'']"
    by (simp add: example_plan_def)
  show ?thesis
    using h fallback_html_css_js [OF h] by simp
qed

text \<open>
  C5 as stated fails: the first step, \<^verbatim>\<open>index.html\<close>, does not get priority 0.
\<close>

theorem fallback_index_html_priority_not_0:
  "map filepath (implementation_steps (create_fallback_task_plan example_plan))
     = [''index.html'', ''style.css'', ''script.js'']
   \<and> map priority (implementation_steps (create_fallback_task_plan example_plan)) = [1, 2, 3]
   \<and> map priority (implementation_steps (create_fallback_task_plan example_plan)) \<noteq> [0, 2, 3]"
  by (simp add: create_fallback_task_plan_def fallback_step_def example_plan_def
      file_ext_dotted_html file_ext_dotted_css file_ext_dotted_js priority_map_def Let_def)

text \<open>
  C1. Given a state that carries a coder state or a task plan (the input without which the
  Reviewer does not review at all) and a ReviewState whose iteration counter is at or above
  its \<open>max_iterations\<close>, one invocation of \<^verbatim>\<open>reviewer_agent\<close> returns a ReviewState with
  \<open>all_passed\<close> true, whatever the files under review hold: no file is read and no request
  is made (the world is unchanged).
\<close>

theorem reviewer_cap_forces_all_passed:
  assumes "s_review_state state = Some rs" and "max_iterations rs \<le> iteration rs"
    and "s_coder_state state \<noteq> None \<or> s_task_plan state \<noteq> None"
  shows "(\<exists>rs'. s_review_state (fst (reviewer_agent e w state)) = Some rs' \<and> all_passed rs')
         \<and> s_status (fst (reviewer_agent e w state)) = Some ''review_max_iterations''
         \<and> snd (reviewer_agent e w state) = w"
proof -
  from assms(2) have cap: "max_iterations rs \<le> iteration rs + 1"
    by simp
  from reviewer_cap(1) [OF assms(1) cap assms(3), of e w]
  have "\<exists>rs'. s_review_state (fst (reviewer_agent e w state)) = Some rs' \<and> all_passed rs'"
    by blast
  with reviewer_cap(2) [OF assms(1) cap assms(3), of e w]
    reviewer_cap(3) [OF assms(1) cap assms(3), of e w]
  show ?thesis by simp
qed

text \<open>
  At the cap the failed \<^verbatim>\<open>app.js\<close> is accepted without a new review; below the cap the same
  project tree fails the review.
\<close>

theorem reviewer_cap_forces_all_passed_witness:
  "s_review_state (fst (reviewer_agent example_env example_world_js (example_review_loop_state 5)))
     = Some \<lparr> reviews = [example_passed_review], iteration = 6, max_iterations = 5,
              all_passed = True \<rparr>
   \<and> s_status (fst (reviewer_agent example_env example_world_js (example_review_loop_state 5)))
     = Some ''review_max_iterations''
   \<and> snd (reviewer_agent example_env example_world_js (example_review_loop_state 5))
     = example_world_js
   \<and> map_option all_passed
        (s_review_state
           (fst (reviewer_agent example_env example_world_js (example_review_loop_state 0))))
     = Some False"
proof -
  let ?rs = "\<lparr> reviews = [example_passed_review, example_js_review], iteration = 5,
               max_iterations = 5, all_passed = False \<rparr>"
  have h1: "s_review_state (example_review_loop_state 5) = Some ?rs"
    by (simp add: example_review_loop_state_def empty_state_def)
  have h2: "max_iterations ?rs \<le> iteration ?rs"
    by simp
  have h3: "s_coder_state (example_review_loop_state 5) \<noteq> None
      \<or> s_task_plan (example_review_loop_state 5) \<noteq> None"
    by (simp add: example_review_loop_state_def empty_state_def)
  have ev: "s_review_state
        (fst (reviewer_agent example_env example_world_js (example_review_loop_state 5)))
      = Some \<lparr> reviews = [example_passed_review], iteration = 6, max_iterations = 5,
               all_passed = True \<rparr>"
    by (simp add: reviewer_agent_def Let_def CoderState_init_def ReviewState_init_def
        example_defs)
  have below: "map_option all_passed
        (s_review_state
           (fst (reviewer_agent example_env example_world_js (example_review_loop_state 0))))
      = Some False"
    by (simp add: reviewer_agent_def Let_def CoderState_init_def ReviewState_init_def
        review_step_def review_file_def tick_llm_def add_unspecified_issue_def
        file_tool_defs example_defs)
  from reviewer_cap_forces_all_passed [OF h1 h2 h3, of example_env example_world_js] ev below
  show ?thesis by simp
qed

text \<open>
  C4. Every CodeReview in the ReviewState that \<^verbatim>\<open>reviewer_agent\<close> returns has a non-empty
  list of issues when it did not pass.
\<close>

theorem reviewer_failed_review_has_issues:
  assumes "s_review_state (fst (reviewer_agent e w state)) = Some rs'"
    and "r \<in> set (reviews rs')" and "\<not> passed r"
  shows "issues r \<noteq> []"
  using reviewer_reviews_ok [OF assms(1)] assms(2,3)
  by (auto simp: review_ok_def)

theorem reviewer_failed_review_has_issues_witness:
  "s_review_state (fst (reviewer_agent example_env example_world_html
      (empty_state\<lparr>s_task_plan := Some example_task_plan\<rparr>)))
     = Some \<lparr> reviews = [example_upgraded_review], iteration = 0, max_iterations = 5,
              all_passed = False \<rparr>
   \<and> \<not> passed example_upgraded_review
   \<and> issues example_upgraded_review \<noteq> []"
proof -
  let ?st = "empty_state\<lparr>s_task_plan := Some example_task_plan\<rparr>"
  let ?rs = "\<lparr> reviews = [example_upgraded_review], iteration = 0, max_iterations = 5,
               all_passed = False \<rparr>"
  have ev: "s_review_state (fst (reviewer_agent example_env example_world_html ?st)) = Some ?rs"
    by (simp add: reviewer_agent_def Let_def CoderState_init_def ReviewState_init_def
        review_step_def review_file_def tick_llm_def add_unspecified_issue_def
        file_tool_defs example_defs)
  have mem: "example_upgraded_review \<in> set (reviews ?rs)"
    by simp
  have np: "\<not> passed example_upgraded_review"
    by (simp add: example_upgraded_review_def)
  show ?thesis
    using ev np reviewer_failed_review_has_issues [OF ev mem np] by simp
qed

text \<open>
  C9, as the code has it. The review iteration cap is configurable: a ReviewState created
  without an explicit \<open>max_iterations\<close> has \<open>max_iterations = 3\<close>, one created with an
  explicit value has that value. The Reviewer creates its first ReviewState with the
  explicit value 5, and carries the cap of an existing ReviewState over unchanged.
\<close>

theorem review_cap_default:
  "max_iterations (ReviewState_init rv it None ap) = 3
   \<and> max_iterations (ReviewState_init rv it (Some m) ap) = m
   \<and> (s_review_state (fst (reviewer_agent e w state)) = Some rs' \<longrightarrow>
        max_iterations rs'
          = (case s_review_state state of None \<Rightarrow> 5 | Some ex \<Rightarrow> max_iterations ex))"
  using reviewer_max_iterations [of e w state rs']
  by (simp add: ReviewState_init_def)

theorem review_cap_default_witness:
  "max_iterations (ReviewState_init None None None None) = 3
   \<and> max_iterations (ReviewState_init None None (Some 5) None) = 5
   \<and> s_review_state (fst (reviewer_agent example_env example_world_html
        (empty_state\<lparr>s_task_plan := Some example_task_plan\<rparr>)))
       = Some \<lparr> reviews = [example_upgraded_review], iteration = 0, max_iterations = 5,
                all_passed = False \<rparr>"
proof -
  let ?st = "empty_state\<lparr>s_task_plan := Some example_task_plan\<rparr>"
  let ?rs = "\<lparr> reviews = [example_upgraded_review], iteration = 0, max_iterations = 5,
               all_passed = False \<rparr>"
  have ev: "s_review_state (fst (reviewer_agent example_env example_world_html ?st)) = Some ?rs"
    by (simp add: reviewer_agent_def Let_def CoderState_init_def ReviewState_init_def
        review_step_def review_file_def tick_llm_def add_unspecified_issue_def
        file_tool_defs example_defs)
  show ?thesis
    using ev review_cap_default [of None None None 5 example_env example_world_html ?st ?rs]
    by simp
qed

text \<open>
  C9 as stated fails: the ReviewState created without an explicit \<open>max_iterations\<close> does
  not have the cap 5.
\<close>

theorem review_state_default_cap_not_5:
  "max_iterations (ReviewState_init None None None None) \<noteq> 5"
  by (simp add: ReviewState_init_def)

text \<open>
  C2, as the code has it. Any number of \<^verbatim>\<open>coder_agent\<close> invocations from a state with a task
  plan and no CoderState (or a fresh one) returns normally, and in every CoderState so
  produced \<^verbatim>\<open>len(completed_files) + len(failed_files) == current_step_idx\<close>, the two lists
  together hold the file paths of the steps attempted so far, and they are disjoint as
  sets when the file paths of the steps of the task plan are pairwise distinct.
\<close>

theorem coder_coverage:
  assumes "s_task_plan state = Some tp"
    and "s_coder_state state = None
         \<or> s_coder_state state = Some (CoderState_init tp' None None None)"
  shows "\<exists>st w'. coder_run e n (state, w) = (Inr st, w')
           \<and> (0 < n \<longrightarrow> s_coder_state st \<noteq> None)
           \<and> (\<forall>cs. s_coder_state st = Some cs \<longrightarrow>
                 int (length (completed_files cs)) + int (length (failed_files cs))
                   = current_step_idx cs
                 \<and> set (completed_files cs) \<union> set (failed_files cs)
                   = set (take (nat (current_step_idx cs))
                            (map filepath (implementation_steps (task_plan cs))))
                 \<and> (distinct (map filepath (implementation_steps (task_plan cs))) \<longrightarrow>
                      set (completed_files cs) \<inter> set (failed_files cs) = {}))"
proof -
  have inv: "\<And>cs. s_coder_state state = Some cs \<Longrightarrow> coder_inv cs"
    using assms(2) coder_inv_fresh_default [of tp'] by auto
  from coder_run_inv [OF assms(1) inv, of e n w]
  obtain st w' where run: "coder_run e n (state, w) = (Inr st, w')"
    and pos: "0 < n \<longrightarrow> s_coder_state st \<noteq> None"
    and invn: "\<forall>cs. s_coder_state st = Some cs \<longrightarrow> coder_inv cs"
    by blast
  have "\<And>cs. coder_inv cs \<Longrightarrow>
      int (length (completed_files cs)) + int (length (failed_files cs)) = current_step_idx cs
      \<and> set (completed_files cs) \<union> set (failed_files cs)
          = set (take (nat (current_step_idx cs))
                   (map filepath (implementation_steps (task_plan cs))))
      \<and> (distinct (map filepath (implementation_steps (task_plan cs))) \<longrightarrow>
           set (completed_files cs) \<inter> set (failed_files cs) = {})"
    by (auto simp: coder_inv_def Let_def split: if_splits)
  with run pos invn show ?thesis by blast
qed

theorem coder_coverage_witness:
  "s_coder_state (projr (fst (coder_run flaky_env 2
        (empty_state\<lparr>s_task_plan := Some example_two_step_plan\<rparr>, example_world))))
     = Some \<lparr> task_plan = example_two_step_plan, current_step_idx = 2,
              completed_files = [''b.js''], failed_files = [''a.js''],
              current_file_content = None \<rparr>
   \<and> set [''b.js''] \<inter> set [''a.js''] = ({} :: string set)
   \<and> (\<exists>st w'. coder_run flaky_env 2
          (empty_state\<lparr>s_task_plan := Some example_two_step_plan\<rparr>, example_world)
        = (Inr st, w'))"
proof -
  let ?st0 = "empty_state\<lparr>s_task_plan := Some example_two_step_plan\<rparr>"
  have h1: "s_task_plan ?st0 = Some example_two_step_plan"
    by (simp add: empty_state_def)
  have h2: "s_coder_state ?st0 = None
      \<or> s_coder_state ?st0 = Some (CoderState_init example_two_step_plan None None None)"
    by (simp add: empty_state_def)
  have ev: "s_coder_state (projr (fst (coder_run flaky_env 2 (?st0, example_world))))
      = Some \<lparr> task_plan = example_two_step_plan, current_step_idx = 2,
               completed_files = [''b.js''], failed_files = [''a.js''],
               current_file_content = None \<rparr>"
    by (simp add: numeral_2_eq_2 coder_eval_defs example_defs)
  from coder_coverage [OF h1 h2, of flaky_env 2 example_world]
  have "\<exists>st w'. coder_run flaky_env 2 (?st0, example_world) = (Inr st, w')"
    by blast
  with ev show ?thesis by simp
qed

text \<open>
  C2 as stated fails: with two steps for the same file, the first failing and the second
  succeeding, the file path is in both lists.
\<close>

theorem coder_lists_not_disjoint:
  "s_coder_state (projr (fst (coder_run flaky_env 2
        (empty_state\<lparr>s_task_plan := Some example_dup_plan\<rparr>, example_world))))
     = Some \<lparr> task_plan = example_dup_plan, current_step_idx = 2,
              completed_files = [''a.js''], failed_files = [''a.js''],
              current_file_content = None \<rparr>
   \<and> set [''a.js''] \<inter> set [''a.js''] \<noteq> ({} :: string set)"
  by (simp add: numeral_2_eq_2 coder_eval_defs example_defs)

text \<open>
  C10. Whenever the tool-using agent returns without raising, \<^verbatim>\<open>coder_agent\<close> appends the
  file path of the current step to \<^verbatim>\<open>completed_files\<close> and advances the index, whatever
  project tree the agent leaves behind; and there is an execution after which
  \<^verbatim>\<open>completed_files\<close> holds a path with no file on disk.
\<close>

theorem coder_completed_without_check:
  "(\<forall>tp cs task d'.
      s_task_plan state = Some tp \<longrightarrow>
      cs = (case s_coder_state state of
              None \<Rightarrow> CoderState_init tp (Some 0) (Some []) (Some []) | Some c \<Rightarrow> c) \<longrightarrow>
      current_step_idx cs < int (length (implementation_steps (task_plan cs))) \<longrightarrow>
      py_index (implementation_steps (task_plan cs)) (current_step_idx cs) = Some task \<longrightarrow>
      prepare_error e (llm_calls w) = None \<longrightarrow>
      react_agent_invoke e (llm_calls w) (coder_request e w task) (disk w) = (Inr (), d') \<longrightarrow>
      (\<exists>st. coder_agent e w state = (Inr st, tick_llm (w\<lparr>disk := d'\<rparr>))
         \<and> s_coder_state st
             = Some (cs\<lparr>completed_files := completed_files cs @ [filepath task],
                       current_step_idx := current_step_idx cs + 1\<rparr>)))
   \<and> (\<exists>e0 w0 state0 st w' cs.
        coder_agent e0 w0 state0 = (Inr st, w') \<and> s_coder_state st = Some cs
        \<and> ''index.html'' \<in> set (completed_files cs)
        \<and> disk w' = [] \<and> read_file (PROJECT_ROOT e0) w' ''index.html'' = [])"
proof (intro conjI allI impI)
  fix tp cs task d'
  assume "s_task_plan state = Some tp"
    and "cs = (case s_coder_state state of
                 None \<Rightarrow> CoderState_init tp (Some 0) (Some []) (Some []) | Some c \<Rightarrow> c)"
    and "current_step_idx cs < int (length (implementation_steps (task_plan cs)))"
    and "py_index (implementation_steps (task_plan cs)) (current_step_idx cs) = Some task"
    and "prepare_error e (llm_calls w) = None"
    and "react_agent_invoke e (llm_calls w) (coder_request e w task) (disk w) = (Inr (), d')"
  then show "\<exists>st. coder_agent e w state = (Inr st, tick_llm (w\<lparr>disk := d'\<rparr>))
      \<and> s_coder_state st
          = Some (cs\<lparr>completed_files := completed_files cs @ [filepath task],
                    current_step_idx := current_step_idx cs + 1\<rparr>)"
    by (rule coder_agent_react_ok)
next
  have "s_coder_state (empty_state\<lparr>s_task_plan := Some example_task_plan,
               s_coder_state :=
                 Some \<lparr> task_plan = example_task_plan, current_step_idx = 1,
                        completed_files = [''index.html''], failed_files = [],
                        current_file_content = None \<rparr>,
               s_current_phase := Some CODING, s_status := Some ''coded''\<rparr>)
      = Some \<lparr> task_plan = example_task_plan, current_step_idx = 1,
                completed_files = [''index.html''], failed_files = [],
                current_file_content = None \<rparr>"
    by (simp add: empty_state_def)
  moreover have "''index.html'' \<in> set (completed_files
      \<lparr> task_plan = example_task_plan, current_step_idx = 1,
        completed_files = [''index.html''], failed_files = [],
        current_file_content = None \<rparr>)"
    by simp
  ultimately show "\<exists>e0 w0 state0 st w' cs.
        coder_agent e0 w0 state0 = (Inr st, w') \<and> s_coder_state st = Some cs
        \<and> ''index.html'' \<in> set (completed_files cs)
        \<and> disk w' = [] \<and> read_file (PROJECT_ROOT e0) w' ''index.html'' = []"
    using coder_example_unwritten example_index_html_absent by blast
qed

theorem coder_completed_without_check_witness:
  "\<exists>st. coder_agent example_env example_world
          (empty_state\<lparr>s_task_plan := Some example_task_plan\<rparr>)
        = (Inr st, tick_llm example_world)
      \<and> s_coder_state st
          = Some \<lparr> task_plan = example_task_plan, current_step_idx = 1,
                   completed_files = [''index.html''], failed_files = [],
                   current_file_content = None \<rparr>
      \<and> read_file example_root (tick_llm example_world) ''index.html'' = []"
proof -
  let ?st0 = "empty_state\<lparr>s_task_plan := Some example_task_plan\<rparr>"
  let ?cs = "CoderState_init example_task_plan (Some 0) (Some []) (Some [])"
  let ?task = "\<lparr> filepath = ''index.html'', task_description = ''the page'',
                 dependencies = [], expected_exports = [], priority = 1 \<rparr>"
  have h1: "s_task_plan ?st0 = Some example_task_plan"
    by (simp add: empty_state_def)
  have h2: "?cs = (case s_coder_state ?st0 of
      None \<Rightarrow> CoderState_init example_task_plan (Some 0) (Some []) (Some []) | Some c \<Rightarrow> c)"
    by (simp add: empty_state_def)
  have h3: "current_step_idx ?cs < int (length (implementation_steps (task_plan ?cs)))"
    by (simp add: CoderState_init_def example_task_plan_def)
  have h4: "py_index (implementation_steps (task_plan ?cs)) (current_step_idx ?cs) = Some ?task"
    by (simp add: py_index_def CoderState_init_def example_task_plan_def)
  have h5: "prepare_error example_env (llm_calls example_world) = None"
    by (simp add: example_env_def)
  have h6: "react_agent_invoke example_env (llm_calls example_world)
      (coder_request example_env example_world ?task) (disk example_world)
      = (Inr (), disk example_world)"
    by (simp add: example_env_def)
  have rd: "read_file example_root (tick_llm example_world) ''index.html'' = []"
    by (simp add: tick_llm_def file_tool_defs example_defs)
  from coder_completed_without_check [where state = ?st0 and e = example_env and w = example_world]
    h1 h2 h3 h4 h5 h6
  have "\<exists>st. coder_agent example_env example_world ?st0
        = (Inr st, tick_llm (example_world\<lparr>disk := disk example_world\<rparr>))
      \<and> s_coder_state st
          = Some (?cs\<lparr>completed_files := completed_files ?cs @ [filepath ?task],
                     current_step_idx := current_step_idx ?cs + 1\<rparr>)"
    by blast
  with rd show ?thesis
    by (simp add: CoderState_init_def)
qed



text \<open>
  C7 on the code. \<^verbatim>\<open>app.js\<close> does not exist, so its content reads as the empty text; the
  Fixer records \<^verbatim>\<open>Cannot read file\<close> for it and then still makes its request, writes the
  answer to the file and lists the file as fixed.
\<close>

theorem fixer_unreadable_file_not_aborted:
  "read_file (PROJECT_ROOT long_fix_env) example_world ''app.js'' = []
   \<and> fix_file long_fix_env example_js_review (example_world, [], [])
       = (\<lparr> disk = [([''home'', ''proj'', ''app.js''], ''console.log(1); console.log(2);'')],
            io_fault = (\<lambda>p. None), llm_calls = 1 \<rparr>,
          [''app.js''], [(''app.js'', ''Cannot read file'')])"
  by (simp add: fixer_eval_defs file_tool_defs example_defs)

end
